theory Spec2Isabelle
  imports Complex_Main "HOL-Library.Sublist"
begin

section \<open>Student record management console application\<close>

text \<open>
  A shallow embedding of \<^verbatim>\<open>Student_Record_Management_Console_App.py\<close>: the class
  \<^verbatim>\<open>Student\<close> with \<^verbatim>\<open>to_dict\<close> and \<^verbatim>\<open>from_dict\<close>, and the class
  \<^verbatim>\<open>StudentManager\<close> with \<^verbatim>\<open>_load_data\<close>, \<^verbatim>\<open>_save_data\<close>,
  \<^verbatim>\<open>_find_student\<close>, \<^verbatim>\<open>add_student\<close>, \<^verbatim>\<open>update_student\<close> and
  \<^verbatim>\<open>delete_student\<close>.
\<close>

subsection \<open>Values\<close>

text \<open>
  A Python \<^verbatim>\<open>float\<close>, as far as the program looks at it: it is only ever compared with
  the integers 0 and 100, and such a comparison is exact. A finite float is the rational
  number it denotes; the three other values compare as IEEE 754 says.
\<close>

datatype pyfloat = Finite rat | PosInf | NegInf | NaN

text \<open>Python's \<^verbatim>\<open>i <= x\<close> and \<^verbatim>\<open>x <= i\<close> for an integer \<open>i\<close> and a float \<open>x\<close>.\<close>

fun int_le_float :: "int \<Rightarrow> pyfloat \<Rightarrow> bool" where
  "int_le_float i (Finite r) = (of_int i \<le> r)"
| "int_le_float i PosInf = True"
| "int_le_float i NegInf = False"
| "int_le_float i NaN = False"

fun float_le_int :: "pyfloat \<Rightarrow> int \<Rightarrow> bool" where
  "float_le_int (Finite r) i = (r \<le> of_int i)"
| "float_le_int PosInf i = False"
| "float_le_int NegInf i = True"
| "float_le_int NaN i = False"

text \<open>
  The objects that \<^verbatim>\<open>json.load\<close> returns and \<^verbatim>\<open>json.dump\<close> accepts. A Python
  \<^verbatim>\<open>dict\<close> is its list of entries in insertion order, read with \<^const>\<open>map_of\<close>.
  The attributes of a \<^verbatim>\<open>Student\<close> are dynamically typed: \<^verbatim>\<open>from_dict\<close> stores
  whatever the file holds under a key, so each attribute is such a value.
\<close>

datatype json =
    JNull
  | JBool bool
  | JInt int
  | JFloat pyfloat
  | JStr string
  | JArr "json list"
  | JObj "(string \<times> json) list"

datatype py_error = EOFError | KeyError | TypeError | OSError

record student =
  student_id :: json
  name :: json
  branch :: json
  year :: json
  marks :: json

subsection \<open>\<^verbatim>\<open>Student.to_dict\<close> and \<^verbatim>\<open>Student.from_dict\<close>\<close>

definition to_dict :: "student \<Rightarrow> json" where
  "to_dict s = JObj
     [(''Student_id'', student_id s),
      (''Name'', name s),
      (''Branch'', branch s),
      (''Year'', year s),
      (''Marks'', marks s)]"

text \<open>
  \<^verbatim>\<open>data[key]\<close> for a string \<open>key\<close>: a \<^verbatim>\<open>dict\<close> without the key raises
  \<^verbatim>\<open>KeyError\<close>, a list or a string raises \<^verbatim>\<open>TypeError\<close> (their indices are
  integers), and the other values are not subscriptable (\<^verbatim>\<open>TypeError\<close>).
\<close>

fun subscript :: "json \<Rightarrow> string \<Rightarrow> py_error + json" where
  "subscript (JObj kvs) key = (case map_of kvs key of None \<Rightarrow> Inl KeyError | Some v \<Rightarrow> Inr v)"
| "subscript v key = Inl TypeError"

text \<open>The arguments of \<^verbatim>\<open>cls(...)\<close> are evaluated from left to right.\<close>

definition from_dict :: "json \<Rightarrow> py_error + student" where
  "from_dict data =
     (case subscript data ''Student_id'' of Inl e \<Rightarrow> Inl e | Inr i \<Rightarrow>
     (case subscript data ''Name'' of Inl e \<Rightarrow> Inl e | Inr n \<Rightarrow>
     (case subscript data ''Branch'' of Inl e \<Rightarrow> Inl e | Inr b \<Rightarrow>
     (case subscript data ''Year'' of Inl e \<Rightarrow> Inl e | Inr y \<Rightarrow>
     (case subscript data ''Marks'' of Inl e \<Rightarrow> Inl e | Inr k \<Rightarrow>
        Inr \<lparr>student_id = i, name = n, branch = b, year = y, marks = k\<rparr>)))))"

subsection \<open>The manager, the backing file and the console\<close>

text \<open>
  What reading the backing file gives: no file (\<^verbatim>\<open>os.path.exists\<close> is false), a file
  that cannot be opened or read (\<^verbatim>\<open>OSError\<close>), a text that \<^verbatim>\<open>json.load\<close> rejects
  (\<^verbatim>\<open>JSONDecodeError\<close>), or a text that \<^verbatim>\<open>json.load\<close> turns into a value. The text
  itself is not modelled: \<^verbatim>\<open>json.dump\<close> of a value leaves a file that parses to this
  value.
\<close>

datatype data_file = Absent | Unreadable | Unparsable | Parses json

text \<open>
  The state: the list \<^verbatim>\<open>self.students\<close>, the backing file, and whether
  \<^verbatim>\<open>open(self.file_name, 'w')\<close> succeeds: the one failure of \<^verbatim>\<open>_save_data\<close> that
  is modelled, and it leaves the file as it was.
\<close>

record manager =
  students :: "student list"
  data_file :: data_file
  writable :: bool

text \<open>
  The lines printed by \<^verbatim>\<open>print\<close> that report an outcome. The banner that opens each
  operation, the two lines that announce the prompts of \<^verbatim>\<open>update_student\<close> and the
  prompts of \<^verbatim>\<open>input\<close> are fixed texts and are not recorded.
\<close>

datatype msg =
    Loaded
  | DecodeFailed
  | LoadFailed py_error
  | NoDataFile
  | Saved
  | SaveFailed
  | IdEmpty
  | IdExists string
  | YearNotPositive
  | YearInvalid
  | MarksOutOfRange
  | MarksInvalid
  | Added string
  | Updated string
  | Deleted string
  | NotFound string

text \<open>
  The built-in functions the program calls on console input: \<^verbatim>\<open>str.strip\<close>,
  \<^verbatim>\<open>int\<close> and \<^verbatim>\<open>float\<close>, the latter two with \<open>None\<close> for
  \<^verbatim>\<open>ValueError\<close>. They are parameters: every theorem holds for all of them.
\<close>

record builtins =
  strip :: "string \<Rightarrow> string"
  py_int :: "string \<Rightarrow> int option"
  py_float :: "string \<Rightarrow> pyfloat option"

text \<open>
  The console is the list of lines still to be read; \<^verbatim>\<open>input\<close> on an exhausted
  console raises \<^verbatim>\<open>EOFError\<close>, which nothing in the program catches. An operation
  returns the error, or its result with the lines left and the messages printed. Every
  console of the model is finite, so each \<^verbatim>\<open>while True\<close> loop ends, with an accepted
  line or with \<^verbatim>\<open>EOFError\<close>; a user who enters rejected lines for ever is not a value
  of the model.
\<close>

type_synonym 'a io = "py_error + ('a \<times> string list \<times> msg list)"

definition emit :: "msg \<Rightarrow> 'a io \<Rightarrow> 'a io" where
  "emit x r = (case r of Inl e \<Rightarrow> Inl e | Inr (a, inp, out) \<Rightarrow> Inr (a, inp, x # out))"

subsection \<open>\<^verbatim>\<open>_load_data\<close> and \<^verbatim>\<open>_save_data\<close>\<close>

text \<open>
  \<^verbatim>\<open>for d in data\<close>: a list gives its elements, a \<^verbatim>\<open>dict\<close> its keys, a string its
  characters; the other values are not iterable.
\<close>

fun iterate :: "json \<Rightarrow> py_error + json list" where
  "iterate (JArr xs) = Inr xs"
| "iterate (JObj kvs) = Inr (map (\<lambda>kv. JStr (fst kv)) kvs)"
| "iterate (JStr s) = Inr (map (\<lambda>c. JStr [c]) s)"
| "iterate v = Inl TypeError"

text \<open>The comprehension \<^verbatim>\<open>[Student.from_dict(d) for d in data]\<close> over the elements.\<close>

fun from_dicts :: "json list \<Rightarrow> py_error + student list" where
  "from_dicts [] = Inr []"
| "from_dicts (d # ds) =
     (case from_dict d of Inl e \<Rightarrow> Inl e | Inr s \<Rightarrow>
     (case from_dicts ds of Inl e \<Rightarrow> Inl e | Inr ss \<Rightarrow> Inr (s # ss)))"

definition parse_students :: "json \<Rightarrow> py_error + student list" where
  "parse_students data = (case iterate data of Inl e \<Rightarrow> Inl e | Inr ds \<Rightarrow> from_dicts ds)"

text \<open>
  \<^verbatim>\<open>_load_data\<close>: the \<^verbatim>\<open>try\<close> body either assigns the whole list or raises before
  the assignment; both handlers assign the empty list. Without a file the list is left as
  it is.
\<close>

definition load_data :: "manager \<Rightarrow> manager \<times> msg list" where
  "load_data m =
     (case data_file m of
        Absent \<Rightarrow> (m, [NoDataFile])
      | Unreadable \<Rightarrow> (m\<lparr>students := []\<rparr>, [LoadFailed OSError])
      | Unparsable \<Rightarrow> (m\<lparr>students := []\<rparr>, [DecodeFailed])
      | Parses data \<Rightarrow>
          (case parse_students data of
             Inl e \<Rightarrow> (m\<lparr>students := []\<rparr>, [LoadFailed e])
           | Inr sts \<Rightarrow> (m\<lparr>students := sts\<rparr>, [Loaded])))"

text \<open>\<^verbatim>\<open>StudentManager.__init__\<close>: the empty list, then \<^verbatim>\<open>_load_data\<close>.\<close>

definition init :: "data_file \<Rightarrow> bool \<Rightarrow> manager \<times> msg list" where
  "init f w = load_data \<lparr>students = [], data_file = f, writable = w\<rparr>"

definition save_data :: "manager \<Rightarrow> manager \<times> msg list" where
  "save_data m =
     (if writable m then (m\<lparr>data_file := Parses (JArr (map to_dict (students m)))\<rparr>, [Saved])
      else (m, [SaveFailed]))"

subsection \<open>\<^verbatim>\<open>_find_student\<close>\<close>

text \<open>
  The argument is always a string read from the console, and Python's \<^verbatim>\<open>==\<close> between
  any value and a string holds exactly when the value is that string. The callers test
  the result for truth; a \<^verbatim>\<open>Student\<close> defines neither \<^verbatim>\<open>__bool__\<close> nor
  \<^verbatim>\<open>__len__\<close>, so every record found counts as true and only \<open>None\<close> as false.
\<close>

fun find_student :: "student list \<Rightarrow> string \<Rightarrow> student option" where
  "find_student [] sid = None"
| "find_student (s # sts) sid =
     (if student_id s = JStr sid then Some s else find_student sts sid)"

subsection \<open>\<^verbatim>\<open>add_student\<close>\<close>

text \<open>The three \<^verbatim>\<open>while True\<close> loops of \<^verbatim>\<open>add_student\<close>, one line read per round.\<close>

fun add_read_id :: "builtins \<Rightarrow> student list \<Rightarrow> string list \<Rightarrow> string io" where
  "add_read_id B sts [] = Inl EOFError"
| "add_read_id B sts (l # ls) =
     (if strip B l = [] then emit IdEmpty (add_read_id B sts ls)
      else if find_student sts (strip B l) \<noteq> None
        then emit (IdExists (strip B l)) (add_read_id B sts ls)
      else Inr (strip B l, ls, []))"

fun add_read_year :: "builtins \<Rightarrow> string list \<Rightarrow> int io" where
  "add_read_year B [] = Inl EOFError"
| "add_read_year B (l # ls) =
     (case py_int B l of
        None \<Rightarrow> emit YearInvalid (add_read_year B ls)
      | Some y \<Rightarrow>
          if y \<le> 0 then emit YearNotPositive (add_read_year B ls) else Inr (y, ls, []))"

fun add_read_marks :: "builtins \<Rightarrow> string list \<Rightarrow> pyfloat io" where
  "add_read_marks B [] = Inl EOFError"
| "add_read_marks B (l # ls) =
     (case py_float B l of
        None \<Rightarrow> emit MarksInvalid (add_read_marks B ls)
      | Some k \<Rightarrow>
          if \<not> (int_le_float 0 k \<and> float_le_int k 100)
          then emit MarksOutOfRange (add_read_marks B ls)
          else Inr (k, ls, []))"

definition add_student :: "builtins \<Rightarrow> manager \<Rightarrow> string list \<Rightarrow> manager io" where
  "add_student B m inp =
     (case add_read_id B (students m) inp of Inl e \<Rightarrow> Inl e | Inr (sid, inp1, out1) \<Rightarrow>
     (case inp1 of [] \<Rightarrow> Inl EOFError | n # inp2 \<Rightarrow>
     (case inp2 of [] \<Rightarrow> Inl EOFError | b # inp3 \<Rightarrow>
     (case add_read_year B inp3 of Inl e \<Rightarrow> Inl e | Inr (y, inp4, out2) \<Rightarrow>
     (case add_read_marks B inp4 of Inl e \<Rightarrow> Inl e | Inr (k, inp5, out3) \<Rightarrow>
        (let new_student = \<lparr>student_id = JStr sid, name = JStr (strip B n),
               branch = JStr (strip B b), year = JInt y, marks = JFloat k\<rparr>;
             saved = save_data (m\<lparr>students := students m @ [new_student]\<rparr>)
         in Inr (fst saved, inp5,
                 out1 @ out2 @ out3 @ snd saved @ [Added (strip B n)])))))))"

subsection \<open>\<^verbatim>\<open>update_student\<close>\<close>

text \<open>
  The two loops of \<^verbatim>\<open>update_student\<close>. A blank line leaves the loop and the attribute
  as it is; an accepted value is assigned inside the loop.
\<close>

fun update_read_year :: "builtins \<Rightarrow> student \<Rightarrow> string list \<Rightarrow> student io" where
  "update_read_year B s [] = Inl EOFError"
| "update_read_year B s (l # ls) =
     (if strip B l = [] then Inr (s, ls, [])
      else (case py_int B (strip B l) of
              None \<Rightarrow> emit YearInvalid (update_read_year B s ls)
            | Some y \<Rightarrow>
                if y \<le> 0 then emit YearNotPositive (update_read_year B s ls)
                else Inr (s\<lparr>year := JInt y\<rparr>, ls, [])))"

fun update_read_marks :: "builtins \<Rightarrow> student \<Rightarrow> string list \<Rightarrow> student io" where
  "update_read_marks B s [] = Inl EOFError"
| "update_read_marks B s (l # ls) =
     (if strip B l = [] then Inr (s, ls, [])
      else (case py_float B (strip B l) of
              None \<Rightarrow> emit MarksInvalid (update_read_marks B s ls)
            | Some k \<Rightarrow>
                if \<not> (int_le_float 0 k \<and> float_le_int k 100)
                then emit MarksOutOfRange (update_read_marks B s ls)
                else Inr (s\<lparr>marks := JFloat k\<rparr>, ls, [])))"

text \<open>
  \<^verbatim>\<open>_find_student\<close> returns the object that is in the list, and the assignments to its
  attributes change the list at that place: the first element with the id. No two
  elements of the list are the same object (each is made by its own constructor call).
\<close>

fun replace_found :: "string \<Rightarrow> student \<Rightarrow> student list \<Rightarrow> student list" where
  "replace_found sid s' [] = []"
| "replace_found sid s' (s # sts) =
     (if student_id s = JStr sid then s' # sts else s # replace_found sid s' sts)"

definition update_student :: "builtins \<Rightarrow> manager \<Rightarrow> string list \<Rightarrow> manager io" where
  "update_student B m inp =
     (case inp of [] \<Rightarrow> Inl EOFError | l # inp1 \<Rightarrow>
     (case find_student (students m) (strip B l) of
        None \<Rightarrow> Inr (m, inp1, [NotFound (strip B l)])
      | Some s \<Rightarrow>
     (case inp1 of [] \<Rightarrow> Inl EOFError | n # inp2 \<Rightarrow>
     (case inp2 of [] \<Rightarrow> Inl EOFError | b # inp3 \<Rightarrow>
        (let s1 = (if strip B n \<noteq> [] then s\<lparr>name := JStr (strip B n)\<rparr> else s);
             s2 = (if strip B b \<noteq> [] then s1\<lparr>branch := JStr (strip B b)\<rparr> else s1)
         in
     (case update_read_year B s2 inp3 of Inl e \<Rightarrow> Inl e | Inr (s3, inp4, out1) \<Rightarrow>
     (case update_read_marks B s3 inp4 of Inl e \<Rightarrow> Inl e | Inr (s4, inp5, out2) \<Rightarrow>
        (let saved = save_data (m\<lparr>students := replace_found (strip B l) s4 (students m)\<rparr>)
         in Inr (fst saved, inp5, out1 @ out2 @ snd saved @ [Updated (strip B l)])))))))))"

subsection \<open>\<^verbatim>\<open>delete_student\<close>\<close>

definition delete_student :: "builtins \<Rightarrow> manager \<Rightarrow> string list \<Rightarrow> manager io" where
  "delete_student B m inp =
     (case inp of [] \<Rightarrow> Inl EOFError | l # inp1 \<Rightarrow>
        (let initial_len = length (students m);
             m1 = m\<lparr>students := filter (\<lambda>s. student_id s \<noteq> JStr (strip B l)) (students m)\<rparr>
         in if length (students m1) < initial_len
            then (let saved = save_data m1
                  in Inr (fst saved, inp1, snd saved @ [Deleted (strip B l)]))
            else Inr (m1, inp1, [NotFound (strip B l)])))"

subsection \<open>Properties of a store\<close>

text \<open>
  The record of the specification: a non-empty string as id, a positive integer as year,
  a number from 0 to 100 as marks (a JSON file may hold the number as an integer).
\<close>

definition unique_ids :: "student list \<Rightarrow> bool" where
  "unique_ids sts = distinct (map student_id sts)"

fun marks_in_range :: "json \<Rightarrow> bool" where
  "marks_in_range (JFloat k) = (int_le_float 0 k \<and> float_le_int k 100)"
| "marks_in_range (JInt i) = (0 \<le> i \<and> i \<le> 100)"
| "marks_in_range v = False"

fun year_positive :: "json \<Rightarrow> bool" where
  "year_positive (JInt y) = (0 < y)"
| "year_positive v = False"

fun id_nonempty :: "json \<Rightarrow> bool" where
  "id_nonempty (JStr sid) = (sid \<noteq> [])"
| "id_nonempty v = False"

definition well_formed :: "student \<Rightarrow> bool" where
  "well_formed s = (id_nonempty (student_id s) \<and> year_positive (year s) \<and> marks_in_range (marks s))"

subsection \<open>Concrete inputs\<close>

text \<open>
  Stand-ins for the built-ins on the lines used below: \<^verbatim>\<open>strip\<close> for the space
  character, \<^verbatim>\<open>int\<close> and \<^verbatim>\<open>float\<close> as tables.
\<close>

definition ex_builtins :: builtins where
  "ex_builtins =
     \<lparr>strip = (\<lambda>s. rev (dropWhile (\<lambda>c. c = CHR '' '') (rev (dropWhile (\<lambda>c. c = CHR '' '') s)))),
      py_int = map_of [(''2'', 2), (''3'', 3), (''0'', 0), (''-1'', -1)],
      py_float = map_of [(''88.5'', Finite (177 / 2)), (''0'', Finite 0), (''100'', Finite 100),
                         (''100.5'', Finite (201 / 2)), (''-1'', Finite (-1)), (''nan'', NaN),
                         (''inf'', PosInf)]\<rparr>"

definition alice :: student where
  "alice = \<lparr>student_id = JStr ''S1'', name = JStr ''Alice'', branch = JStr ''CS'',
            year = JInt 2, marks = JFloat (Finite (177 / 2))\<rparr>"

definition bob :: student where
  "bob = \<lparr>student_id = JStr ''S2'', name = JStr ''Bob'', branch = JStr ''EE'',
          year = JInt 1, marks = JFloat (Finite 100)\<rparr>"

text \<open>A second record with the id of \<^const>\<open>alice\<close>, and a record no operation would write.\<close>

definition carol :: student where
  "carol = \<lparr>student_id = JStr ''S1'', name = JStr ''Carol'', branch = JStr ''ME'',
            year = JInt 3, marks = JFloat (Finite 0)\<rparr>"

definition mallory :: student where
  "mallory = \<lparr>student_id = JStr [], name = JNull, branch = JNull,
              year = JInt 0, marks = JFloat (Finite 101)\<rparr>"

definition store :: "student list \<Rightarrow> manager" where
  "store sts = \<lparr>students = sts, data_file = Absent, writable = True\<rparr>"

text \<open>The manager after a successful \<^verbatim>\<open>_save_data\<close> of a store.\<close>

definition saved :: "student list \<Rightarrow> manager" where
  "saved sts = \<lparr>students = sts, data_file = Parses (JArr (map to_dict sts)), writable = True\<rparr>"

section \<open>Auxiliary facts\<close>

lemma from_dict_to_dict: "from_dict (to_dict s) = Inr s"
  by (simp add: from_dict_def to_dict_def)

lemma from_dicts_to_dict: "from_dicts (map to_dict sts) = Inr sts"
  by (induction sts) (simp_all add: from_dict_to_dict)

lemma parse_students_saved: "parse_students (JArr (map to_dict sts)) = Inr sts"
  by (simp add: parse_students_def from_dicts_to_dict)

lemma find_student_None_iff:
  "find_student sts sid = None \<longleftrightarrow> (\<forall>s \<in> set sts. student_id s \<noteq> JStr sid)"
  by (induction sts) auto

lemma find_student_Some_iff:
  "find_student sts sid = Some s \<longleftrightarrow>
     (\<exists>pre post. sts = pre @ s # post \<and> student_id s = JStr sid \<and>
        (\<forall>p \<in> set pre. student_id p \<noteq> JStr sid))"
proof (induction sts)
  case Nil
  then show ?case by simp
next
  case (Cons a sts)
  show ?case
  proof (cases "student_id a = JStr sid")
    case True
    have "(\<exists>pre post. a # sts = pre @ s # post \<and> student_id s = JStr sid \<and>
        (\<forall>p \<in> set pre. student_id p \<noteq> JStr sid)) \<longleftrightarrow> a = s"
    proof
      assume "\<exists>pre post. a # sts = pre @ s # post \<and> student_id s = JStr sid \<and>
        (\<forall>p \<in> set pre. student_id p \<noteq> JStr sid)"
      then obtain pre post where h: "a # sts = pre @ s # post" "\<forall>p \<in> set pre. student_id p \<noteq> JStr sid"
        by blast
      show "a = s"
      proof (cases pre)
        case Nil
        with h show ?thesis by simp
      next
        case (Cons x xs)
        with h True show ?thesis by auto
      qed
    next
      assume "a = s"
      with True have "a # sts = [] @ s # sts \<and> student_id s = JStr sid \<and> (\<forall>p \<in> set []. student_id p \<noteq> JStr sid)"
        by simp
      then show "\<exists>pre post. a # sts = pre @ s # post \<and> student_id s = JStr sid \<and>
        (\<forall>p \<in> set pre. student_id p \<noteq> JStr sid)" by blast
    qed
    with True show ?thesis by simp
  next
    case False
    have "(\<exists>pre post. a # sts = pre @ s # post \<and> student_id s = JStr sid \<and>
        (\<forall>p \<in> set pre. student_id p \<noteq> JStr sid)) \<longleftrightarrow>
          (\<exists>pre post. sts = pre @ s # post \<and> student_id s = JStr sid \<and>
        (\<forall>p \<in> set pre. student_id p \<noteq> JStr sid))" (is "?L \<longleftrightarrow> ?R")
    proof
      assume ?L
      then obtain pre post where h: "a # sts = pre @ s # post" "student_id s = JStr sid"
         "\<forall>p \<in> set pre. student_id p \<noteq> JStr sid"
        by blast
      show ?R
      proof (cases pre)
        case Nil
        with h False show ?thesis by simp
      next
        case (Cons x xs)
        with h have "sts = xs @ s # post \<and> student_id s = JStr sid \<and> (\<forall>p \<in> set xs. student_id p \<noteq> JStr sid)" by simp
        then show ?thesis by blast
      qed
    next
      assume ?R
      then obtain pre post where h: "sts = pre @ s # post" "student_id s = JStr sid"
         "\<forall>p \<in> set pre. student_id p \<noteq> JStr sid"
        by blast
      with False have "a # sts = (a # pre) @ s # post \<and> student_id s = JStr sid \<and> (\<forall>p \<in> set (a # pre). student_id p \<noteq> JStr sid)"
        by simp
      then show ?L by blast
    qed
    with False Cons.IH show ?thesis by simp
  qed
qed


lemma emit_Inl [simp]: "emit x (Inl e) = Inl e"
  by (simp add: emit_def)

lemma emit_Inr [simp]: "emit x (Inr (a, inp, out)) = Inr (a, inp, x # out)"
  by (simp add: emit_def)

lemma emit_eq_Inr:
  "emit x r = Inr (a, inp, out) \<longleftrightarrow> (\<exists>out'. r = Inr (a, inp, out') \<and> out = x # out')"
  by (auto simp: emit_def split: sum.splits)

lemma emit_eq_Inl: "emit x r = Inl e \<longleftrightarrow> r = Inl e"
  by (auto simp: emit_def split: sum.splits)

lemma add_read_id_result:
  "add_read_id B sts inp = Inr (sid, inp', out) \<Longrightarrow> sid \<noteq> [] \<and> find_student sts sid = None"
  by (induction inp arbitrary: out) (auto simp: emit_eq_Inr split: if_splits)

lemma add_read_year_result: "add_read_year B inp = Inr (y, inp', out) \<Longrightarrow> 0 < y"
  by (induction inp arbitrary: out) (auto simp: emit_eq_Inr split: if_splits option.splits)

lemma add_read_marks_result:
  "add_read_marks B inp = Inr (k, inp', out) \<Longrightarrow> int_le_float 0 k \<and> float_le_int k 100"
  by (induction inp arbitrary: out) (auto simp: emit_eq_Inr split: if_splits option.splits)

lemma update_read_year_result:
  "update_read_year B s inp = Inr (s', inp', out) \<Longrightarrow>
     student_id s' = student_id s \<and> name s' = name s \<and> branch s' = branch s \<and>
     marks s' = marks s \<and> (year s' = year s \<or> (\<exists>y. 0 < y \<and> year s' = JInt y))"
  by (induction inp arbitrary: out) (auto simp: emit_eq_Inr split: if_splits option.splits)

lemma update_read_marks_result:
  "update_read_marks B s inp = Inr (s', inp', out) \<Longrightarrow>
     student_id s' = student_id s \<and> name s' = name s \<and> branch s' = branch s \<and>
     year s' = year s \<and>
     (marks s' = marks s \<or>
      (\<exists>k. int_le_float 0 k \<and> float_le_int k 100 \<and> marks s' = JFloat k))"
  by (induction inp arbitrary: out) (auto simp: emit_eq_Inr split: if_splits option.splits)

lemma length_replace_found [simp]: "length (replace_found sid s' sts) = length sts"
  by (induction sts) auto

lemma replace_found_split:
  "find_student sts sid = Some s \<Longrightarrow>
     \<exists>pre post. sts = pre @ s # post \<and> replace_found sid s' sts = pre @ s' # post \<and>
        (\<forall>p \<in> set pre. student_id p \<noteq> JStr sid)"
proof (induction sts)
  case Nil
  then show ?case by simp
next
  case (Cons a sts)
  show ?case
  proof (cases "student_id a = JStr sid")
    case True
    with Cons.prems have "a # sts = [] @ s # sts \<and> replace_found sid s' (a # sts) = [] @ s' # sts \<and>
        (\<forall>p \<in> set []. student_id p \<noteq> JStr sid)" by simp
    then show ?thesis by blast
  next
    case False
    with Cons obtain pre post where h: "sts = pre @ s # post" "replace_found sid s' sts = pre @ s' # post"
        "\<forall>p \<in> set pre. student_id p \<noteq> JStr sid" by auto
    with False have "a # sts = (a # pre) @ s # post \<and> replace_found sid s' (a # sts) = (a # pre) @ s' # post \<and>
        (\<forall>p \<in> set (a # pre). student_id p \<noteq> JStr sid)" by simp
    then show ?thesis by blast
  qed
qed

lemma find_student_id: "find_student sts sid = Some s \<Longrightarrow> student_id s = JStr sid"
  by (induction sts) (auto split: if_splits)

lemma find_student_mem: "find_student sts sid = Some s \<Longrightarrow> s \<in> set sts"
  by (induction sts) (auto split: if_splits)

lemma replace_found_same: "find_student sts sid = Some s \<Longrightarrow> replace_found sid s sts = sts"
  by (induction sts) (auto split: if_splits)

lemma filter_no_match:
  "(\<forall>s \<in> set sts. student_id s \<noteq> JStr sid) \<Longrightarrow> filter (\<lambda>s. student_id s \<noteq> JStr sid) sts = sts"
  by (induction sts) auto

lemma filter_single_remove1:
  "length (filter (\<lambda>x. student_id x = JStr sid) sts) = 1 \<Longrightarrow>
   find_student sts sid = Some s \<Longrightarrow>
     filter (\<lambda>x. student_id x \<noteq> JStr sid) sts = remove1 s sts"
proof (induction sts)
  case Nil
  then show ?case by simp
next
  case (Cons a sts)
  show ?case
  proof (cases "student_id a = JStr sid")
    case True
    with Cons.prems have "a = s" and "filter (\<lambda>x. student_id x = JStr sid) sts = []"
      by simp_all
    then have "\<forall>x \<in> set sts. student_id x \<noteq> JStr sid"
      by (simp add: filter_empty_conv)
    with True \<open>a = s\<close> show ?thesis
      by (simp add: filter_no_match)
  next
    case False
    with Cons.prems have f: "find_student sts sid = Some s"
      and "length (filter (\<lambda>x. student_id x = JStr sid) sts) = 1"
      by simp_all
    with Cons.IH have "filter (\<lambda>x. student_id x \<noteq> JStr sid) sts = remove1 s sts"
      by simp
    moreover from False f have "a \<noteq> s"
      using find_student_id by fastforce
    ultimately show ?thesis using False by simp
  qed
qed

lemma length_filter_match:
  "s \<in> set sts \<Longrightarrow> student_id s = JStr sid \<Longrightarrow>
     length (filter (\<lambda>x. student_id x \<noteq> JStr sid) sts) < length sts"
  by (induction sts) (auto simp: less_Suc_eq_le)

lemma students_save_data [simp]: "students (fst (save_data m)) = students m"
  by (simp add: save_data_def)

lemma writable_save_data [simp]: "writable (fst (save_data m)) = writable m"
  by (simp add: save_data_def)

lemma from_dicts_map_Inr: "map from_dict ds = map Inr sts \<Longrightarrow> from_dicts ds = Inr sts"
  by (induction ds arbitrary: sts) auto

lemma from_dict_JObj:
  "map_of kvs ''Student_id'' = Some i \<Longrightarrow> map_of kvs ''Name'' = Some n \<Longrightarrow>
   map_of kvs ''Branch'' = Some b \<Longrightarrow> map_of kvs ''Year'' = Some y \<Longrightarrow>
   map_of kvs ''Marks'' = Some k \<Longrightarrow>
   from_dict (JObj kvs) = Inr \<lparr>student_id = i, name = n, branch = b, year = y, marks = k\<rparr>"
  by (simp add: from_dict_def)

lemma add_student_result:
  "add_student B m inp = Inr (m', inp', out) \<Longrightarrow>
     \<exists>sid n b y k. students m' = students m @
         [\<lparr>student_id = JStr sid, name = JStr n, branch = JStr b, year = JInt y, marks = JFloat k\<rparr>] \<and>
       sid \<noteq> [] \<and> find_student (students m) sid = None \<and> 0 < y \<and>
       int_le_float 0 k \<and> float_le_int k 100"
  unfolding add_student_def
  by (auto simp: Let_def split: sum.splits list.splits prod.splits
      dest!: add_read_id_result add_read_year_result add_read_marks_result)

lemma update_student_not_found:
  "find_student (students m) (strip B l) = None \<Longrightarrow>
     update_student B m (l # inp) = Inr (m, inp, [NotFound (strip B l)])"
  by (simp add: update_student_def)

lemma update_student_found:
  assumes "update_student B m (l # inp) = Inr (m', inp', out)"
    and "find_student (students m) (strip B l) = Some s"
  shows "\<exists>s'. students m' = replace_found (strip B l) s' (students m) \<and>
      student_id s' = student_id s \<and>
      (year s' = year s \<or> (\<exists>y. 0 < y \<and> year s' = JInt y)) \<and>
      (marks s' = marks s \<or>
        (\<exists>k. int_le_float 0 k \<and> float_le_int k 100 \<and> marks s' = JFloat k))"
  using assms unfolding update_student_def
  by (auto simp: Let_def split: sum.splits list.splits prod.splits if_splits
      dest!: update_read_year_result update_read_marks_result)

lemma replace_found_nth:
  assumes "find_student sts sid = Some s" and "j < length sts"
    and "replace_found sid s' sts ! j \<noteq> sts ! j"
  shows "student_id (sts ! j) = JStr sid \<and> (\<forall>k < j. student_id (sts ! k) \<noteq> JStr sid)"
proof -
  from assms(1) obtain pre post where h: "sts = pre @ s # post"
    "replace_found sid s' sts = pre @ s' # post" "\<forall>p \<in> set pre. student_id p \<noteq> JStr sid"
    using replace_found_split by blast
  have j: "j = length pre"
  proof (rule ccontr)
    assume "j \<noteq> length pre"
    then have "(pre @ s' # post) ! j = (pre @ s # post) ! j"
      by (simp add: nth_append nth_Cons')
    with h assms(3) show False by simp
  qed
  from assms(1) have "student_id s = JStr sid"
    by (rule find_student_id)
  with h j show ?thesis
    by (simp add: nth_append)
qed

lemma replace_found_ids:
  assumes "find_student sts sid = Some s" and "student_id s' = student_id s"
  shows "map student_id (replace_found sid s' sts) = map student_id sts"
proof -
  from assms(1) obtain pre post where "sts = pre @ s # post"
    "replace_found sid s' sts = pre @ s' # post"
    using replace_found_split by blast
  with assms(2) show ?thesis by simp
qed

lemma replace_found_list_all:
  "list_all P sts \<Longrightarrow> P s' \<Longrightarrow> list_all P (replace_found sid s' sts)"
  by (induction sts) auto

lemma delete_student_students:
  "delete_student B m inp = Inr (m', inp', out) \<Longrightarrow>
     \<exists>l. students m' = filter (\<lambda>s. student_id s \<noteq> JStr (strip B l)) (students m)"
  by (cases inp) (auto simp: delete_student_def Let_def split: if_splits)

lemma update_student_students:
  assumes "update_student B m inp = Inr (m', inp', out)"
  shows "students m' = students m \<or>
    (\<exists>sid s s'. find_student (students m) sid = Some s \<and>
       students m' = replace_found sid s' (students m) \<and>
       student_id s' = student_id s \<and>
       (year s' = year s \<or> (\<exists>y. 0 < y \<and> year s' = JInt y)) \<and>
       (marks s' = marks s \<or>
         (\<exists>k. int_le_float 0 k \<and> float_le_int k 100 \<and> marks s' = JFloat k)))"
proof (cases inp)
  case Nil
  with assms show ?thesis by (simp add: update_student_def)
next
  case (Cons l rest)
  show ?thesis
  proof (cases "find_student (students m) (strip B l)")
    case None
    with assms Cons have "m' = m"
      by (simp add: update_student_not_found)
    then show ?thesis by simp
  next
    case (Some s)
    with assms Cons show ?thesis
      using update_student_found by blast
  qed
qed

lemma update_student_well_formed:
  assumes "update_student B m inp = Inr (m', inp', out)"
    and "list_all well_formed (students m)"
  shows "list_all well_formed (students m')"
proof -
  from update_student_students [OF assms(1)]
  show ?thesis
  proof
    assume "students m' = students m"
    with assms(2) show ?thesis by simp
  next
    assume "\<exists>sid s s'. find_student (students m) sid = Some s \<and>
       students m' = replace_found sid s' (students m) \<and>
       student_id s' = student_id s \<and>
       (year s' = year s \<or> (\<exists>y. 0 < y \<and> year s' = JInt y)) \<and>
       (marks s' = marks s \<or>
         (\<exists>k. int_le_float 0 k \<and> float_le_int k 100 \<and> marks s' = JFloat k))"
    then obtain sid s s' where h: "find_student (students m) sid = Some s"
      "students m' = replace_found sid s' (students m)"
      "student_id s' = student_id s"
      "year s' = year s \<or> (\<exists>y. 0 < y \<and> year s' = JInt y)"
      "marks s' = marks s \<or>
         (\<exists>k. int_le_float 0 k \<and> float_le_int k 100 \<and> marks s' = JFloat k)"
      by blast
    from h(1) have "s \<in> set (students m)"
      by (rule find_student_mem)
    with assms(2) have "well_formed s"
      by (simp add: list_all_iff)
    with h(3,4,5) have "well_formed s'"
      by (auto simp: well_formed_def)
    with assms(2) show ?thesis
      unfolding h(2) by (rule replace_found_list_all)
  qed
qed

lemma add_student_well_formed:
  "add_student B m inp = Inr (m', inp', out) \<Longrightarrow>
     \<exists>s. students m' = students m @ [s] \<and> well_formed s"
  by (drule add_student_result) (auto simp: well_formed_def)

lemma mallory_loaded:
  "init (Parses (JArr [to_dict mallory])) True =
     (\<lparr>students = [mallory], data_file = Parses (JArr [to_dict mallory]), writable = True\<rparr>,
      [Loaded])"
  by (simp add: init_def load_data_def parse_students_def from_dict_to_dict)

lemma find_student_None_ids: "find_student sts sid = None \<longleftrightarrow> JStr sid \<notin> set (map student_id sts)"
  by (induction sts) auto

lemma marks_ok_Finite:
  "int_le_float 0 k \<and> float_le_int k 100 \<longleftrightarrow> (\<exists>r. k = Finite r \<and> 0 \<le> r \<and> r \<le> 100)"
  by (cases k) auto

lemma add_student_id_empty:
  "strip B i = [] \<Longrightarrow> add_student B m (i # rest) = emit IdEmpty (add_student B m rest)"
  by (auto simp: add_student_def emit_def Let_def split: sum.splits list.splits prod.splits)

lemma add_student_id_exists:
  "strip B i \<noteq> [] \<Longrightarrow> find_student (students m) (strip B i) = Some s \<Longrightarrow>
     add_student B m (i # rest) = emit (IdExists (strip B i)) (add_student B m rest)"
  by (auto simp: add_student_def emit_def Let_def split: sum.splits list.splits prod.splits)

lemma add_student_year_rejected:
  "strip B i \<noteq> [] \<Longrightarrow> find_student (students m) (strip B i) = None \<Longrightarrow>
   py_int B y = Some yr \<Longrightarrow> yr \<le> 0 \<Longrightarrow>
     add_student B m (i # n # b # y # rest) =
       emit YearNotPositive (add_student B m (i # n # b # rest))"
  by (auto simp: add_student_def emit_def Let_def split: sum.splits list.splits prod.splits)

lemma add_student_marks_rejected:
  "strip B i \<noteq> [] \<Longrightarrow> find_student (students m) (strip B i) = None \<Longrightarrow>
   py_int B y = Some yr \<Longrightarrow> 0 < yr \<Longrightarrow> py_float B k = Some mk \<Longrightarrow>
   \<not> (int_le_float 0 mk \<and> float_le_int mk 100) \<Longrightarrow>
     add_student B m (i # n # b # y # k # rest) =
       emit MarksOutOfRange (add_student B m (i # n # b # y # rest))"
  by (auto simp: add_student_def emit_def Let_def split: sum.splits list.splits prod.splits)

lemma add_student_accepted:
  "strip B i \<noteq> [] \<Longrightarrow> find_student (students m) (strip B i) = None \<Longrightarrow>
   py_int B y = Some yr \<Longrightarrow> 0 < yr \<Longrightarrow> py_float B k = Some mk \<Longrightarrow>
   int_le_float 0 mk \<and> float_le_int mk 100 \<Longrightarrow>
     add_student B m (i # n # b # y # k # rest) =
       Inr (fst (save_data (m\<lparr>students := students m @
              [\<lparr>student_id = JStr (strip B i), name = JStr (strip B n),
                branch = JStr (strip B b), year = JInt yr, marks = JFloat mk\<rparr>]\<rparr>)),
            rest,
            snd (save_data (m\<lparr>students := students m @
              [\<lparr>student_id = JStr (strip B i), name = JStr (strip B n),
                branch = JStr (strip B b), year = JInt yr, marks = JFloat mk\<rparr>]\<rparr>))
              @ [Added (strip B n)])"
  by (simp add: add_student_def Let_def)

lemma update_student_year_rejected:
  "find_student (students m) (strip B i) = Some s \<Longrightarrow> strip B y \<noteq> [] \<Longrightarrow>
   py_int B (strip B y) = Some yr \<Longrightarrow> yr \<le> 0 \<Longrightarrow>
     update_student B m (i # n # b # y # rest) =
       emit YearNotPositive (update_student B m (i # n # b # rest))"
  by (simp add: update_student_def emit_def Let_def split: sum.splits prod.splits
      split del: if_split)

lemma update_read_year_accepts:
  "strip B y = [] \<or> py_int B (strip B y) = Some yr \<and> 0 < yr \<Longrightarrow>
     update_read_year B s (y # rest) =
       Inr (s\<lparr>year := (if strip B y = [] then year s else JInt yr)\<rparr>, rest, [])"
  by auto

lemma update_read_marks_accepts:
  "strip B k = [] \<or>
   py_float B (strip B k) = Some mk \<and> int_le_float 0 mk \<and> float_le_int mk 100 \<Longrightarrow>
     update_read_marks B s (k # rest) =
       Inr (s\<lparr>marks := (if strip B k = [] then marks s else JFloat mk)\<rparr>, rest, [])"
  by auto

lemma update_student_marks_rejected:
  assumes "find_student (students m) (strip B i) = Some s"
    and "strip B y = [] \<or> py_int B (strip B y) = Some yr \<and> 0 < yr"
    and "strip B k \<noteq> []" and "py_float B (strip B k) = Some mk"
    and "\<not> (int_le_float 0 mk \<and> float_le_int mk 100)"
  shows "update_student B m (i # n # b # y # k # rest) =
       emit MarksOutOfRange (update_student B m (i # n # b # y # rest))"
proof -
  have r: "update_read_marks B s3 (k # rest) = emit MarksOutOfRange (update_read_marks B s3 rest)"
    for s3
    using assms(3,4,5) by simp
  show ?thesis
    using assms(1)
    by (simp only: update_student_def update_read_year_accepts [OF assms(2)] r list.case
        option.case sum.case prod.case Let_def)
      (simp add: emit_def split: sum.splits prod.splits split del: if_split)
qed

lemma update_student_accepted:
  assumes "find_student (students m) (strip B i) = Some s"
    and "strip B y = [] \<or> py_int B (strip B y) = Some yr \<and> 0 < yr"
    and "strip B k = [] \<or>
      py_float B (strip B k) = Some mk \<and> int_le_float 0 mk \<and> float_le_int mk 100"
    and "s' = s\<lparr>name := (if strip B n = [] then name s else JStr (strip B n)),
          branch := (if strip B b = [] then branch s else JStr (strip B b)),
          year := (if strip B y = [] then year s else JInt yr),
          marks := (if strip B k = [] then marks s else JFloat mk)\<rparr>"
  shows "update_student B m (i # n # b # y # k # rest) =
       Inr (fst (save_data (m\<lparr>students := replace_found (strip B i) s' (students m)\<rparr>)), rest,
            snd (save_data (m\<lparr>students := replace_found (strip B i) s' (students m)\<rparr>))
              @ [Updated (strip B i)])"
  using assms(1)
  by (simp add: update_student_def Let_def update_read_year_accepts [OF assms(2)]
      update_read_marks_accepts [OF assms(3)] assms(4)
      del: update_read_year.simps update_read_marks.simps)

lemmas ex_defs =
  ex_builtins_def store_def saved_def alice_def bob_def carol_def save_data_def Let_def

section \<open>The claims\<close>

subsection \<open>Finding a record\<close>

text \<open>
  C6. \<^verbatim>\<open>_find_student\<close> scans the store in order: it returns \<open>None\<close> exactly when no
  record of the store has the id, and it returns a record \<open>s\<close> exactly when \<open>s\<close> has the
  id and stands in the store after records that do not have it, that is, when \<open>s\<close> is the
  first match.
\<close>

theorem find_student_first_match:
  "(find_student sts sid = None \<longleftrightarrow> (\<forall>s \<in> set sts. student_id s \<noteq> JStr sid)) \<and>
   (find_student sts sid = Some s \<longleftrightarrow>
      (\<exists>pre post. sts = pre @ s # post \<and> student_id s = JStr sid \<and>
         (\<forall>p \<in> set pre. student_id p \<noteq> JStr sid)))"
  by (simp add: find_student_None_iff find_student_Some_iff)

text \<open>
  In a store where \<^const>\<open>alice\<close> and \<^const>\<open>carol\<close> share the id \<open>S1\<close>, the scan
  returns \<^const>\<open>alice\<close>, the earlier one; nothing has the id \<open>S3\<close>.
\<close>

theorem find_student_first_match_witness:
  "find_student [alice, bob, carol] ''S1'' = Some alice \<and>
   (\<exists>pre post. [alice, bob, carol] = pre @ alice # post \<and> student_id alice = JStr ''S1'' \<and>
      (\<forall>p \<in> set pre. student_id p \<noteq> JStr ''S1'')) \<and>
   find_student [alice, bob, carol] ''S1'' \<noteq> Some carol \<and>
   find_student [alice, bob, carol] ''S3'' = None \<and>
   student_id alice \<noteq> JStr ''S3'' \<and> student_id bob \<noteq> JStr ''S3'' \<and>
   student_id carol \<noteq> JStr ''S3''"
proof -
  have f: "find_student [alice, bob, carol] ''S1'' = Some alice"
    by (simp add: alice_def)
  have c: "alice \<noteq> carol"
    by (simp add: alice_def carol_def)
  have n: "find_student [alice, bob, carol] ''S3'' = None"
    by (simp add: alice_def bob_def carol_def)
  from f find_student_first_match [of "[alice, bob, carol]" "''S1''" alice]
  have "\<exists>pre post. [alice, bob, carol] = pre @ alice # post \<and> student_id alice = JStr ''S1'' \<and>
      (\<forall>p \<in> set pre. student_id p \<noteq> JStr ''S1'')"
    by blast
  moreover from n find_student_first_match [of "[alice, bob, carol]" "''S3''" alice]
  have "\<forall>s \<in> set [alice, bob, carol]. student_id s \<noteq> JStr ''S3''"
    by blast
  ultimately show ?thesis using f n c by simp
qed

subsection \<open>Saving and loading\<close>

text \<open>
  C4. When the file can be written, loading what \<^verbatim>\<open>_save_data\<close> wrote gives the store
  that was saved, the same records in the same order, both for \<^verbatim>\<open>_load_data\<close> on the
  manager and for a new manager started on the file; and \<^verbatim>\<open>from_dict\<close> after
  \<^verbatim>\<open>to_dict\<close> gives back each record.
\<close>

theorem save_load_roundtrip:
  "writable m \<Longrightarrow>
     load_data (fst (save_data m)) = (fst (save_data m), [Loaded]) \<and>
     students (fst (load_data (fst (save_data m)))) = students m \<and>
     init (data_file (fst (save_data m))) w =
       (\<lparr>students = students m, data_file = data_file (fst (save_data m)), writable = w\<rparr>,
        [Loaded]) \<and>
     map (\<lambda>s. from_dict (to_dict s)) (students m) = map Inr (students m)"
  by (simp add: save_data_def load_data_def init_def parse_students_saved from_dict_to_dict)

theorem save_load_roundtrip_witness:
  "writable (store [alice, mallory, carol]) \<and>
   students (fst (load_data (fst (save_data (store [alice, mallory, carol]))))) =
     [alice, mallory, carol]"
proof -
  have w: "writable (store [alice, mallory, carol])"
    by (simp add: store_def)
  from save_load_roundtrip [OF w] show ?thesis
    using w by (simp add: store_def)
qed

subsection \<open>Deleting\<close>

text \<open>
  C8. \<^verbatim>\<open>delete_student\<close> reads one line and returns; afterwards the store is the old
  store without the records that have the id: no record with the id remains, every
  other record is still there, and the records that remain are in their old order.
\<close>

theorem delete_student_removes_all_matches:
  "\<exists>m' out. delete_student B m (l # inp) = Inr (m', inp, out) \<and>
     students m' = filter (\<lambda>s. student_id s \<noteq> JStr (strip B l)) (students m) \<and>
     (\<forall>s \<in> set (students m'). student_id s \<noteq> JStr (strip B l)) \<and>
     (\<forall>s \<in> set (students m). student_id s \<noteq> JStr (strip B l) \<longrightarrow> s \<in> set (students m')) \<and>
     subseq (students m') (students m)"
  by (simp add: delete_student_def Let_def)

text \<open>
  With \<^const>\<open>alice\<close> and \<^const>\<open>carol\<close> under the id \<open>S1\<close>, deleting \<open>S1\<close>
  leaves \<^const>\<open>bob\<close> alone.
\<close>

theorem delete_student_removes_all_matches_witness:
  "delete_student ex_builtins (store [alice, bob, carol]) ['' S1 '', ''4''] =
     Inr (\<lparr>students = [bob], data_file = Parses (JArr [to_dict bob]), writable = True\<rparr>,
          [''4''], [Saved, Deleted ''S1'']) \<and>
   student_id bob \<noteq> JStr ''S1''"
proof -
  have s: "strip ex_builtins '' S1 '' = ''S1''"
    by (simp add: ex_builtins_def)
  have d: "delete_student ex_builtins (store [alice, bob, carol]) ['' S1 '', ''4''] =
     Inr (\<lparr>students = [bob], data_file = Parses (JArr [to_dict bob]), writable = True\<rparr>,
          [''4''], [Saved, Deleted ''S1''])"
    by (simp add: delete_student_def s store_def save_data_def alice_def bob_def carol_def)
  from delete_student_removes_all_matches [of ex_builtins "store [alice, bob, carol]" "'' S1 ''" "[''4'']"]
  show ?thesis unfolding d s by simp
qed

text \<open>
  C2, as stated, fails on a store with two records under one id (a store that
  \<^verbatim>\<open>_load_data\<close> can produce): \<^verbatim>\<open>delete_student\<close> removes both, so the store of three
  records shrinks to one, not to two.
\<close>

theorem delete_student_duplicates_counterexample:
  "find_student (students (store [alice, bob, carol])) (strip ex_builtins ''S1'') = Some alice \<and>
   delete_student ex_builtins (store [alice, bob, carol]) [''S1''] =
     Inr (\<lparr>students = [bob], data_file = Parses (JArr [to_dict bob]), writable = True\<rparr>,
          [], [Saved, Deleted ''S1'']) \<and>
   length [bob] \<noteq> length (students (store [alice, bob, carol])) - 1"
  by (simp add: delete_student_def ex_builtins_def store_def save_data_def alice_def bob_def carol_def)

text \<open>
  C2, amended. If exactly one record of the store has the id, \<^verbatim>\<open>delete_student\<close>
  removes exactly this record (the one \<^verbatim>\<open>_find_student\<close> returns), the store is one
  shorter, and the result is saved and reported as deleted; other ids may well be
  repeated in the store. If no record has the id, \<^verbatim>\<open>delete_student\<close> reports
  not-found and leaves the store and the file unchanged.
\<close>

theorem delete_student_single_match:
  "(length (filter (\<lambda>x. student_id x = JStr (strip B l)) (students m)) = 1 \<and>
    find_student (students m) (strip B l) = Some s \<longrightarrow>
      (\<exists>m' out. delete_student B m (l # inp) = Inr (m', inp, out @ [Deleted (strip B l)]) \<and>
         (m', out) = save_data (m\<lparr>students := remove1 s (students m)\<rparr>) \<and>
         students m' = remove1 s (students m) \<and>
         length (students m') + 1 = length (students m))) \<and>
   (find_student (students m) (strip B l) = None \<longrightarrow>
      delete_student B m (l # inp) = Inr (m, inp, [NotFound (strip B l)]))"
proof (intro conjI impI)
  assume h: "length (filter (\<lambda>x. student_id x = JStr (strip B l)) (students m)) = 1 \<and>
    find_student (students m) (strip B l) = Some s"
  then have f: "filter (\<lambda>x. student_id x \<noteq> JStr (strip B l)) (students m) = remove1 s (students m)"
    by (simp add: filter_single_remove1)
  from h have mem: "s \<in> set (students m)"
    using find_student_mem by blast
  then have len: "length (remove1 s (students m)) + 1 = length (students m)"
    by (simp add: length_remove1) (cases "students m", auto)
  have "delete_student B m (l # inp) =
      Inr (fst (save_data (m\<lparr>students := remove1 s (students m)\<rparr>)), inp,
           snd (save_data (m\<lparr>students := remove1 s (students m)\<rparr>)) @ [Deleted (strip B l)])"
    using len by (simp add: delete_student_def Let_def f)
  with len show "\<exists>m' out. delete_student B m (l # inp) = Inr (m', inp, out @ [Deleted (strip B l)]) \<and>
         (m', out) = save_data (m\<lparr>students := remove1 s (students m)\<rparr>) \<and>
         students m' = remove1 s (students m) \<and>
         length (students m') + 1 = length (students m)"
    by simp
next
  assume "find_student (students m) (strip B l) = None"
  then have "filter (\<lambda>x. student_id x \<noteq> JStr (strip B l)) (students m) = students m"
    by (simp add: find_student_None_iff filter_no_match)
  then show "delete_student B m (l # inp) = Inr (m, inp, [NotFound (strip B l)])"
    by (simp add: delete_student_def Let_def)
qed

text \<open>
  In a store where the id \<open>S1\<close> is repeated and \<open>S2\<close> is not, deleting \<open>S2\<close>
  removes \<^const>\<open>bob\<close> alone; nothing has the id \<open>S3\<close>.
\<close>

theorem delete_student_single_match_witness:
  "length (filter (\<lambda>x. student_id x = JStr (strip ex_builtins ''S2''))
      (students (store [alice, carol, bob]))) = 1 \<and>
   find_student (students (store [alice, carol, bob])) (strip ex_builtins ''S2'') = Some bob \<and>
   delete_student ex_builtins (store [alice, carol, bob]) [''S2''] =
     Inr (saved [alice, carol], [], [Saved, Deleted ''S2'']) \<and>
   length (students (saved [alice, carol])) + 1 = length (students (store [alice, carol, bob])) \<and>
   find_student (students (store [alice, carol, bob])) (strip ex_builtins ''S3'') = None \<and>
   delete_student ex_builtins (store [alice, carol, bob]) [''S3''] =
     Inr (store [alice, carol, bob], [], [NotFound ''S3''])"
proof -
  have s: "strip ex_builtins ''S2'' = ''S2''" "strip ex_builtins ''S3'' = ''S3''"
    by (simp_all add: ex_builtins_def)
  have one: "length (filter (\<lambda>x. student_id x = JStr (strip ex_builtins ''S2''))
      (students (store [alice, carol, bob]))) = 1"
    by (simp add: s store_def alice_def bob_def carol_def)
  have f: "find_student (students (store [alice, carol, bob])) (strip ex_builtins ''S2'') = Some bob"
    by (simp add: s store_def alice_def bob_def carol_def)
  have n: "find_student (students (store [alice, carol, bob])) (strip ex_builtins ''S3'') = None"
    by (simp add: s store_def alice_def bob_def carol_def)
  have r: "remove1 bob [alice, carol, bob] = [alice, carol]"
    by (simp add: alice_def bob_def carol_def)
  note t = delete_student_single_match [where B = ex_builtins and m = "store [alice, carol, bob]"
      and inp = "[]"]
  have sv: "save_data ((store [alice, carol, bob])
      \<lparr>students := remove1 bob (students (store [alice, carol, bob]))\<rparr>) =
      (saved [alice, carol], [Saved])"
    by (simp add: ex_defs)
  from one f t [where l = "''S2''" and s = bob]
  have "\<exists>m' out. delete_student ex_builtins (store [alice, carol, bob]) [''S2''] =
      Inr (m', [], out @ [Deleted (strip ex_builtins ''S2'')]) \<and>
      (m', out) = save_data ((store [alice, carol, bob])
        \<lparr>students := remove1 bob (students (store [alice, carol, bob]))\<rparr>)"
    by blast
  then have "delete_student ex_builtins (store [alice, carol, bob]) [''S2''] =
     Inr (saved [alice, carol], [], [Saved, Deleted ''S2''])"
    unfolding sv by (auto simp: s)
  moreover from n t [where l = "''S3''" and s = bob]
  have "delete_student ex_builtins (store [alice, carol, bob]) [''S3''] =
     Inr (store [alice, carol, bob], [], [NotFound ''S3''])"
    by (simp add: s)
  ultimately show ?thesis using one f n
    by (simp add: store_def saved_def)
qed

subsection \<open>Loading\<close>

text \<open>
  C7. \<^verbatim>\<open>_load_data\<close> returns for every state of the backing file: each error the
  \<^verbatim>\<open>try\<close> body can raise is a case of the function and ends in a handler. A new
  manager has the empty store when there is no file; it has the empty store and an error
  report when the file cannot be read, is not JSON, or parses to a value that is not a
  sequence of objects with the five keys; otherwise its store is the sequence of records
  parsed from the file, each record made of the values under the five keys. The last
  conjunct says that these are all the outcomes of \<^verbatim>\<open>_load_data\<close>.
\<close>

theorem load_data_handles_every_file:
  "init Absent w = (\<lparr>students = [], data_file = Absent, writable = w\<rparr>, [NoDataFile]) \<and>
   init Unparsable w = (\<lparr>students = [], data_file = Unparsable, writable = w\<rparr>, [DecodeFailed]) \<and>
   init Unreadable w =
     (\<lparr>students = [], data_file = Unreadable, writable = w\<rparr>, [LoadFailed OSError]) \<and>
   (parse_students data = Inl e \<longrightarrow>
      init (Parses data) w =
        (\<lparr>students = [], data_file = Parses data, writable = w\<rparr>, [LoadFailed e])) \<and>
   (parse_students data = Inr sts \<longrightarrow>
      init (Parses data) w =
        (\<lparr>students = sts, data_file = Parses data, writable = w\<rparr>, [Loaded])) \<and>
   (map from_dict ds = map Inr sts \<longrightarrow> students (fst (init (Parses (JArr ds)) w)) = sts) \<and>
   (map_of kvs ''Student_id'' = Some i \<and> map_of kvs ''Name'' = Some n \<and>
    map_of kvs ''Branch'' = Some b \<and> map_of kvs ''Year'' = Some y \<and>
    map_of kvs ''Marks'' = Some k \<longrightarrow>
      from_dict (JObj kvs) = Inr \<lparr>student_id = i, name = n, branch = b, year = y, marks = k\<rparr>) \<and>
   (load_data m = (m, [NoDataFile]) \<and> data_file m = Absent \<or>
    (\<exists>x. load_data m = (m\<lparr>students := []\<rparr>, [x]) \<and> x \<noteq> Loaded \<and> data_file m \<noteq> Absent) \<or>
    (\<exists>data sts. data_file m = Parses data \<and> parse_students data = Inr sts \<and>
       load_data m = (m\<lparr>students := sts\<rparr>, [Loaded])))"
proof (intro conjI impI)
  show "load_data m = (m, [NoDataFile]) \<and> data_file m = Absent \<or>
    (\<exists>x. load_data m = (m\<lparr>students := []\<rparr>, [x]) \<and> x \<noteq> Loaded \<and> data_file m \<noteq> Absent) \<or>
    (\<exists>data sts. data_file m = Parses data \<and> parse_students data = Inr sts \<and>
       load_data m = (m\<lparr>students := sts\<rparr>, [Loaded]))"
    by (cases "data_file m") (auto simp: load_data_def split: sum.splits)
next
  assume "map from_dict ds = map Inr sts"
  then have "from_dicts ds = Inr sts"
    by (rule from_dicts_map_Inr)
  then show "students (fst (init (Parses (JArr ds)) w)) = sts"
    by (simp add: init_def load_data_def parse_students_def)
next
  assume "map_of kvs ''Student_id'' = Some i \<and> map_of kvs ''Name'' = Some n \<and>
    map_of kvs ''Branch'' = Some b \<and> map_of kvs ''Year'' = Some y \<and>
    map_of kvs ''Marks'' = Some k"
  then show "from_dict (JObj kvs) = Inr \<lparr>student_id = i, name = n, branch = b, year = y, marks = k\<rparr>"
    by (simp add: from_dict_JObj)
qed (simp_all add: init_def load_data_def)

text \<open>
  A file holding a JSON object that is not a sequence of records gives the empty store
  and a report; a file holding two records gives these two records.
\<close>

theorem load_data_handles_every_file_witness:
  "parse_students (JObj [(''a'', JNull)]) = Inl TypeError \<and>
   init (Parses (JObj [(''a'', JNull)])) True =
     (\<lparr>students = [], data_file = Parses (JObj [(''a'', JNull)]), writable = True\<rparr>,
      [LoadFailed TypeError]) \<and>
   parse_students (JArr [to_dict alice, to_dict carol]) = Inr [alice, carol] \<and>
   init (Parses (JArr [to_dict alice, to_dict carol])) True =
     (\<lparr>students = [alice, carol], data_file = Parses (JArr [to_dict alice, to_dict carol]),
       writable = True\<rparr>, [Loaded])"
proof -
  have e: "parse_students (JObj [(''a'', JNull)]) = Inl TypeError"
    by (simp add: parse_students_def from_dict_def)
  have p: "parse_students (JArr [to_dict alice, to_dict carol]) = Inr [alice, carol]"
    using parse_students_saved [of "[alice, carol]"] by simp
  from e load_data_handles_every_file [where data = "JObj [(''a'', JNull)]" and e = TypeError
      and w = True]
  have "init (Parses (JObj [(''a'', JNull)])) True =
     (\<lparr>students = [], data_file = Parses (JObj [(''a'', JNull)]), writable = True\<rparr>,
      [LoadFailed TypeError])"
    by blast
  moreover from p load_data_handles_every_file [where data = "JArr [to_dict alice, to_dict carol]"
      and sts = "[alice, carol]" and w = True]
  have "init (Parses (JArr [to_dict alice, to_dict carol])) True =
     (\<lparr>students = [alice, carol], data_file = Parses (JArr [to_dict alice, to_dict carol]),
       writable = True\<rparr>, [Loaded])"
    by blast
  ultimately show ?thesis using e p by simp
qed

subsection \<open>Updating\<close>

text \<open>
  C9. When \<^verbatim>\<open>update_student\<close> returns, the store has as many records as before, with
  the same ids in the same order, and a record that differs from the old record at its
  place is the first record with the given id.
\<close>

theorem update_student_frame:
  "update_student B m (l # inp) = Inr (m', inp', out) \<Longrightarrow>
     length (students m') = length (students m) \<and>
     map student_id (students m') = map student_id (students m) \<and>
     (\<forall>j < length (students m). students m' ! j \<noteq> students m ! j \<longrightarrow>
        student_id (students m ! j) = JStr (strip B l) \<and>
        (\<forall>k < j. student_id (students m ! k) \<noteq> JStr (strip B l)))"
proof (cases "find_student (students m) (strip B l)")
  case None
  assume "update_student B m (l # inp) = Inr (m', inp', out)"
  with None have "m' = m"
    by (simp add: update_student_not_found)
  then show ?thesis by simp
next
  case (Some s)
  assume "update_student B m (l # inp) = Inr (m', inp', out)"
  with Some obtain s' where s': "students m' = replace_found (strip B l) s' (students m)"
    "student_id s' = student_id s"
    using update_student_found by blast
  have "length (students m') = length (students m)"
    by (simp add: s')
  moreover have "map student_id (students m') = map student_id (students m)"
    using Some s' by (simp add: replace_found_ids)
  moreover have "\<forall>j < length (students m). students m' ! j \<noteq> students m ! j \<longrightarrow>
        student_id (students m ! j) = JStr (strip B l) \<and>
        (\<forall>k < j. student_id (students m ! k) \<noteq> JStr (strip B l))"
    using Some replace_found_nth unfolding s' by blast
  ultimately show ?thesis by simp
qed

text \<open>Updating \<open>S1\<close> in a store with two records under \<open>S1\<close> changes the first only.\<close>

theorem update_student_frame_witness:
  "update_student ex_builtins (store [alice, bob, carol]) [''S1'', '''', ''EE'', ''3'', ''''] =
     Inr (saved [alice\<lparr>branch := JStr ''EE'', year := JInt 3\<rparr>, bob, carol], [],
          [Saved, Updated ''S1'']) \<and>
   length (students (saved [alice\<lparr>branch := JStr ''EE'', year := JInt 3\<rparr>, bob, carol])) =
     length (students (store [alice, bob, carol])) \<and>
   map student_id (students (saved [alice\<lparr>branch := JStr ''EE'', year := JInt 3\<rparr>, bob, carol])) =
     map student_id (students (store [alice, bob, carol]))"
proof -
  have u: "update_student ex_builtins (store [alice, bob, carol])
      (''S1'' # ['''', ''EE'', ''3'', '''']) =
     Inr (saved [alice\<lparr>branch := JStr ''EE'', year := JInt 3\<rparr>, bob, carol], [],
          [Saved, Updated ''S1''])"
    by (simp add: update_student_def ex_defs)
  from update_student_frame [OF u] u show ?thesis
    by simp
qed

text \<open>
  C5. If no record has the id, \<^verbatim>\<open>update_student\<close> reports not-found and changes
  nothing. If \<open>s\<close> is the record found: a blank line keeps the attribute, a non-blank
  name or branch is assigned, a year is assigned when it is positive and marks when they
  lie in \<open>[0, 100]\<close>, and the result is saved; with four blank lines the store is as
  before; a year that is not positive, or marks outside \<open>[0, 100]\<close>, are reported and
  otherwise ignored: the operation goes on as if the line had not been entered.
\<close>

theorem update_student_fields:
  "(find_student (students m) (strip B i) = None \<longrightarrow>
      update_student B m (i # rest) = Inr (m, rest, [NotFound (strip B i)])) \<and>
   (find_student (students m) (strip B i) = Some s \<and>
    (strip B y = [] \<or> py_int B (strip B y) = Some yr \<and> 0 < yr) \<and>
    (strip B k = [] \<or> py_float B (strip B k) = Some (Finite r) \<and> 0 \<le> r \<and> r \<le> 100) \<and>
    s' = s\<lparr>name := (if strip B n = [] then name s else JStr (strip B n)),
           branch := (if strip B b = [] then branch s else JStr (strip B b)),
           year := (if strip B y = [] then year s else JInt yr),
           marks := (if strip B k = [] then marks s else JFloat (Finite r))\<rparr> \<longrightarrow>
      update_student B m (i # n # b # y # k # rest) =
        Inr (fst (save_data (m\<lparr>students := replace_found (strip B i) s' (students m)\<rparr>)), rest,
             snd (save_data (m\<lparr>students := replace_found (strip B i) s' (students m)\<rparr>))
               @ [Updated (strip B i)])) \<and>
   (find_student (students m) (strip B i) = Some s \<and> strip B n = [] \<and> strip B b = [] \<and>
    strip B y = [] \<and> strip B k = [] \<longrightarrow>
      (\<exists>m' out. update_student B m (i # n # b # y # k # rest) = Inr (m', rest, out) \<and>
         students m' = students m)) \<and>
   (find_student (students m) (strip B i) = Some s \<and> strip B y \<noteq> [] \<and>
    py_int B (strip B y) = Some yr \<and> yr \<le> 0 \<longrightarrow>
      update_student B m (i # n # b # y # rest) =
        emit YearNotPositive (update_student B m (i # n # b # rest))) \<and>
   (find_student (students m) (strip B i) = Some s \<and>
    (strip B y = [] \<or> py_int B (strip B y) = Some yr \<and> 0 < yr) \<and>
    strip B k \<noteq> [] \<and> py_float B (strip B k) = Some mk \<and>
    \<not> (\<exists>r. mk = Finite r \<and> 0 \<le> r \<and> r \<le> 100) \<longrightarrow>
      update_student B m (i # n # b # y # k # rest) =
        emit MarksOutOfRange (update_student B m (i # n # b # y # rest)))"
proof (intro conjI impI)
  assume "find_student (students m) (strip B i) = None"
  then show "update_student B m (i # rest) = Inr (m, rest, [NotFound (strip B i)])"
    by (rule update_student_not_found)
next
  assume h: "find_student (students m) (strip B i) = Some s \<and>
    (strip B y = [] \<or> py_int B (strip B y) = Some yr \<and> 0 < yr) \<and>
    (strip B k = [] \<or> py_float B (strip B k) = Some (Finite r) \<and> 0 \<le> r \<and> r \<le> 100) \<and>
    s' = s\<lparr>name := (if strip B n = [] then name s else JStr (strip B n)),
           branch := (if strip B b = [] then branch s else JStr (strip B b)),
           year := (if strip B y = [] then year s else JInt yr),
           marks := (if strip B k = [] then marks s else JFloat (Finite r))\<rparr>"
  then have "strip B k = [] \<or> py_float B (strip B k) = Some (Finite r) \<and>
      int_le_float 0 (Finite r) \<and> float_le_int (Finite r) 100"
    by auto
  with h show "update_student B m (i # n # b # y # k # rest) =
        Inr (fst (save_data (m\<lparr>students := replace_found (strip B i) s' (students m)\<rparr>)), rest,
             snd (save_data (m\<lparr>students := replace_found (strip B i) s' (students m)\<rparr>))
               @ [Updated (strip B i)])"
    using update_student_accepted [where m = m and B = B and i = i and s = s and y = y and yr = yr
        and k = k and mk = "Finite r" and s' = s' and n = n and b = b and rest = rest] by blast
next
  assume h: "find_student (students m) (strip B i) = Some s \<and> strip B n = [] \<and> strip B b = [] \<and>
    strip B y = [] \<and> strip B k = []"
  then have "update_student B m (i # n # b # y # k # rest) =
        Inr (fst (save_data (m\<lparr>students := replace_found (strip B i) s (students m)\<rparr>)), rest,
             snd (save_data (m\<lparr>students := replace_found (strip B i) s (students m)\<rparr>))
               @ [Updated (strip B i)])"
    using update_student_accepted [where m = m and B = B and i = i and s = s and y = y and yr = 0
        and k = k and mk = NaN and s' = s and n = n and b = b and rest = rest] by simp
  moreover from h have "replace_found (strip B i) s (students m) = students m"
    by (simp add: replace_found_same)
  ultimately show "\<exists>m' out. update_student B m (i # n # b # y # k # rest) = Inr (m', rest, out) \<and>
         students m' = students m"
    by simp
next
  assume "find_student (students m) (strip B i) = Some s \<and> strip B y \<noteq> [] \<and>
    py_int B (strip B y) = Some yr \<and> yr \<le> 0"
  then show "update_student B m (i # n # b # y # rest) =
        emit YearNotPositive (update_student B m (i # n # b # rest))"
    using update_student_year_rejected by blast
next
  assume h: "find_student (students m) (strip B i) = Some s \<and>
    (strip B y = [] \<or> py_int B (strip B y) = Some yr \<and> 0 < yr) \<and>
    strip B k \<noteq> [] \<and> py_float B (strip B k) = Some mk \<and>
    \<not> (\<exists>r. mk = Finite r \<and> 0 \<le> r \<and> r \<le> 100)"
  then have "\<not> (int_le_float 0 mk \<and> float_le_int mk 100)"
    by (simp add: marks_ok_Finite)
  with h show "update_student B m (i # n # b # y # k # rest) =
        emit MarksOutOfRange (update_student B m (i # n # b # y # rest))"
    using update_student_marks_rejected [where m = m and B = B and i = i and s = s and y = y
        and yr = yr and k = k and mk = mk and n = n and b = b and rest = rest] by blast
qed

text \<open>
  An unknown id; a blank name and blank marks with a new branch and year; a year of 0 and
  marks of 100.5, each rejected and followed by a blank line.
\<close>

theorem update_student_fields_witness:
  "update_student ex_builtins (store [alice, bob, carol]) [''S3'', ''rest''] =
     Inr (store [alice, bob, carol], [''rest''], [NotFound ''S3'']) \<and>
   update_student ex_builtins (store [alice, bob, carol]) [''S1'', '''', ''EE'', ''3'', ''''] =
     Inr (saved [alice\<lparr>branch := JStr ''EE'', year := JInt 3\<rparr>, bob, carol], [],
          [Saved, Updated ''S1'']) \<and>
   update_student ex_builtins (store [alice, bob, carol]) [''S1'', '''', '''', ''0'', '''', ''''] =
     Inr (saved [alice, bob, carol], [], [YearNotPositive, Saved, Updated ''S1'']) \<and>
   update_student ex_builtins (store [alice, bob, carol])
       [''S1'', '''', '''', '''', ''100.5'', ''''] =
     Inr (saved [alice, bob, carol], [], [MarksOutOfRange, Saved, Updated ''S1''])"
proof -
  have f: "find_student (students (store [alice, bob, carol])) (strip ex_builtins ''S1'') = Some alice"
    by (simp add: ex_defs)
  have nf: "find_student (students (store [alice, bob, carol])) (strip ex_builtins ''S3'') = None"
    by (simp add: ex_defs)
  have b: "strip ex_builtins '''' = []" and e: "strip ex_builtins ''EE'' = ''EE''"
    and s1: "strip ex_builtins ''S1'' = ''S1''" and s3: "strip ex_builtins ''S3'' = ''S3''"
    and y3: "strip ex_builtins ''3'' = ''3''" and y0: "strip ex_builtins ''0'' = ''0''"
    and k: "strip ex_builtins ''100.5'' = ''100.5''"
    by (simp_all add: ex_builtins_def)
  have i3: "py_int ex_builtins ''3'' = Some 3" and i0: "py_int ex_builtins ''0'' = Some 0"
    and fk: "py_float ex_builtins ''100.5'' = Some (Finite (201 / 2))"
    by (simp_all add: ex_builtins_def)
  note t = update_student_fields [where B = ex_builtins and m = "store [alice, bob, carol]"]
  from nf t [where i = "''S3''" and rest = "[''rest'']"]
  have c1: "update_student ex_builtins (store [alice, bob, carol]) [''S3'', ''rest''] =
     Inr (store [alice, bob, carol], [''rest''], [NotFound ''S3''])"
    by (simp add: s3)
  have c2: "update_student ex_builtins (store [alice, bob, carol]) [''S1'', '''', ''EE'', ''3'', ''''] =
     Inr (saved [alice\<lparr>branch := JStr ''EE'', year := JInt 3\<rparr>, bob, carol], [],
          [Saved, Updated ''S1''])"
    using f t [where i = "''S1''" and s = alice and n = "''''" and b = "''EE''" and y = "''3''"
        and yr = 3 and k = "''''" and r = 0 and rest = "[]"
        and s' = "alice\<lparr>branch := JStr ''EE'', year := JInt 3\<rparr>"]
    by (simp add: b e s1 y3 i3) (simp add: ex_defs)
  have blank: "update_student ex_builtins (store [alice, bob, carol]) [''S1'', '''', '''', '''', ''''] =
     Inr (saved [alice, bob, carol], [], [Saved, Updated ''S1''])"
    by (simp add: update_student_def ex_defs)
  have c3: "update_student ex_builtins (store [alice, bob, carol]) [''S1'', '''', '''', ''0'', '''', ''''] =
     Inr (saved [alice, bob, carol], [], [YearNotPositive, Saved, Updated ''S1''])"
    using f t [where i = "''S1''" and s = alice and n = "''''" and b = "''''" and y = "''0''"
        and yr = 0 and rest = "['''', '''']"]
    by (simp add: y0 i0 blank)
  have c4: "update_student ex_builtins (store [alice, bob, carol])
       [''S1'', '''', '''', '''', ''100.5'', ''''] =
     Inr (saved [alice, bob, carol], [], [MarksOutOfRange, Saved, Updated ''S1''])"
    using f t [where i = "''S1''" and s = alice and n = "''''" and b = "''''" and y = "''''"
        and k = "''100.5''" and mk = "Finite (201 / 2)" and rest = "['''']"]
    by (simp add: b k fk blank)
  from c1 c2 c3 c4 show ?thesis by simp
qed

subsection \<open>Adding\<close>

text \<open>
  C3. \<^verbatim>\<open>add_student\<close> rejects a candidate by printing a message and asking again, so a
  rejected line leaves nothing behind but its message. An id is rejected when it is empty
  or already in the store; with an accepted id, a year is rejected when it is not
  positive; with an accepted year, marks are rejected when they are not a number in
  \<open>[0, 100]\<close>. A candidate with none of these defects is appended to the end of the
  store, and the store is saved; marks of 0 and of 100 are among the accepted ones.
\<close>

theorem add_student_validation:
  "(strip B i = [] \<longrightarrow>
      add_student B m (i # rest) = emit IdEmpty (add_student B m rest)) \<and>
   (strip B i \<noteq> [] \<and> find_student (students m) (strip B i) \<noteq> None \<longrightarrow>
      add_student B m (i # rest) = emit (IdExists (strip B i)) (add_student B m rest)) \<and>
   (strip B i \<noteq> [] \<and> find_student (students m) (strip B i) = None \<and>
    py_int B y = Some yr \<and> yr \<le> 0 \<longrightarrow>
      add_student B m (i # n # b # y # rest) =
        emit YearNotPositive (add_student B m (i # n # b # rest))) \<and>
   (strip B i \<noteq> [] \<and> find_student (students m) (strip B i) = None \<and>
    py_int B y = Some yr \<and> 0 < yr \<and> py_float B k = Some mk \<and>
    \<not> (\<exists>r. mk = Finite r \<and> 0 \<le> r \<and> r \<le> 100) \<longrightarrow>
      add_student B m (i # n # b # y # k # rest) =
        emit MarksOutOfRange (add_student B m (i # n # b # y # rest))) \<and>
   (strip B i \<noteq> [] \<and> find_student (students m) (strip B i) = None \<and>
    py_int B y = Some yr \<and> 0 < yr \<and> py_float B k = Some (Finite r) \<and> 0 \<le> r \<and> r \<le> 100 \<longrightarrow>
      add_student B m (i # n # b # y # k # rest) =
        Inr (fst (save_data (m\<lparr>students := students m @
               [\<lparr>student_id = JStr (strip B i), name = JStr (strip B n),
                 branch = JStr (strip B b), year = JInt yr, marks = JFloat (Finite r)\<rparr>]\<rparr>)),
             rest,
             snd (save_data (m\<lparr>students := students m @
               [\<lparr>student_id = JStr (strip B i), name = JStr (strip B n),
                 branch = JStr (strip B b), year = JInt yr, marks = JFloat (Finite r)\<rparr>]\<rparr>))
               @ [Added (strip B n)]))"
proof (intro conjI impI)
  assume "strip B i = []"
  then show "add_student B m (i # rest) = emit IdEmpty (add_student B m rest)"
    by (rule add_student_id_empty)
next
  assume "strip B i \<noteq> [] \<and> find_student (students m) (strip B i) \<noteq> None"
  then show "add_student B m (i # rest) = emit (IdExists (strip B i)) (add_student B m rest)"
    using add_student_id_exists by blast
next
  assume "strip B i \<noteq> [] \<and> find_student (students m) (strip B i) = None \<and>
    py_int B y = Some yr \<and> yr \<le> 0"
  then show "add_student B m (i # n # b # y # rest) =
        emit YearNotPositive (add_student B m (i # n # b # rest))"
    by (simp add: add_student_year_rejected)
next
  assume "strip B i \<noteq> [] \<and> find_student (students m) (strip B i) = None \<and>
    py_int B y = Some yr \<and> 0 < yr \<and> py_float B k = Some mk \<and>
    \<not> (\<exists>r. mk = Finite r \<and> 0 \<le> r \<and> r \<le> 100)"
  then show "add_student B m (i # n # b # y # k # rest) =
        emit MarksOutOfRange (add_student B m (i # n # b # y # rest))"
    by (simp add: add_student_marks_rejected marks_ok_Finite)
next
  assume "strip B i \<noteq> [] \<and> find_student (students m) (strip B i) = None \<and>
    py_int B y = Some yr \<and> 0 < yr \<and> py_float B k = Some (Finite r) \<and> 0 \<le> r \<and> r \<le> 100"
  then show "add_student B m (i # n # b # y # k # rest) =
        Inr (fst (save_data (m\<lparr>students := students m @
               [\<lparr>student_id = JStr (strip B i), name = JStr (strip B n),
                 branch = JStr (strip B b), year = JInt yr, marks = JFloat (Finite r)\<rparr>]\<rparr>)),
             rest,
             snd (save_data (m\<lparr>students := students m @
               [\<lparr>student_id = JStr (strip B i), name = JStr (strip B n),
                 branch = JStr (strip B b), year = JInt yr, marks = JFloat (Finite r)\<rparr>]\<rparr>))
               @ [Added (strip B n)])"
    by (simp add: add_student_accepted)
qed

text \<open>
  Marks of exactly 100 and of exactly 0 are accepted; a blank id, the id of
  \<^const>\<open>alice\<close>, a year of 0 and marks of 100.5 are rejected, and the lines after them
  are read instead.
\<close>

theorem add_student_validation_witness:
  "add_student ex_builtins (store [alice]) [''S2'', ''Bob'', ''EE'', ''2'', ''100''] =
     Inr (saved [alice, bob\<lparr>year := JInt 2\<rparr>], [], [Saved, Added ''Bob'']) \<and>
   add_student ex_builtins (store [alice]) [''S2'', ''Bob'', ''EE'', ''2'', ''0''] =
     Inr (saved [alice, bob\<lparr>year := JInt 2, marks := JFloat (Finite 0)\<rparr>], [],
          [Saved, Added ''Bob'']) \<and>
   add_student ex_builtins (store [alice]) ['' '', ''S2'', ''Bob'', ''EE'', ''2'', ''100''] =
     Inr (saved [alice, bob\<lparr>year := JInt 2\<rparr>], [], [IdEmpty, Saved, Added ''Bob'']) \<and>
   add_student ex_builtins (store [alice]) [''S1'', ''S2'', ''Bob'', ''EE'', ''2'', ''100''] =
     Inr (saved [alice, bob\<lparr>year := JInt 2\<rparr>], [], [IdExists ''S1'', Saved, Added ''Bob'']) \<and>
   add_student ex_builtins (store [alice]) [''S2'', ''Bob'', ''EE'', ''0'', ''2'', ''100''] =
     Inr (saved [alice, bob\<lparr>year := JInt 2\<rparr>], [], [YearNotPositive, Saved, Added ''Bob'']) \<and>
   add_student ex_builtins (store [alice]) [''S2'', ''Bob'', ''EE'', ''2'', ''100.5'', ''100''] =
     Inr (saved [alice, bob\<lparr>year := JInt 2\<rparr>], [], [MarksOutOfRange, Saved, Added ''Bob''])"
proof -
  have st: "strip ex_builtins '' '' = []" "strip ex_builtins ''S1'' = ''S1''"
    "strip ex_builtins ''S2'' = ''S2''" "strip ex_builtins ''Bob'' = ''Bob''"
    "strip ex_builtins ''EE'' = ''EE''"
    by (simp_all add: ex_builtins_def)
  have pi: "py_int ex_builtins ''2'' = Some 2" "py_int ex_builtins ''0'' = Some 0"
    and pf: "py_float ex_builtins ''100'' = Some (Finite 100)"
      "py_float ex_builtins ''0'' = Some (Finite 0)"
      "py_float ex_builtins ''100.5'' = Some (Finite (201 / 2))"
    by (simp_all add: ex_builtins_def)
  have f1: "find_student (students (store [alice])) ''S1'' = Some alice"
    and f2: "find_student (students (store [alice])) ''S2'' = None"
    by (simp_all add: ex_defs)
  note t = add_student_validation [where B = ex_builtins and m = "store [alice]"]
  have a100: "add_student ex_builtins (store [alice]) [''S2'', ''Bob'', ''EE'', ''2'', ''100''] =
     Inr (saved [alice, bob\<lparr>year := JInt 2\<rparr>], [], [Saved, Added ''Bob''])"
    using f2 t [where i = "''S2''" and n = "''Bob''" and b = "''EE''" and y = "''2''" and yr = 2
        and k = "''100''" and r = 100 and rest = "[]"]
    by (simp add: st pi pf) (simp add: ex_defs)
  have a0: "add_student ex_builtins (store [alice]) [''S2'', ''Bob'', ''EE'', ''2'', ''0''] =
     Inr (saved [alice, bob\<lparr>year := JInt 2, marks := JFloat (Finite 0)\<rparr>], [],
          [Saved, Added ''Bob''])"
    using f2 t [where i = "''S2''" and n = "''Bob''" and b = "''EE''" and y = "''2''" and yr = 2
        and k = "''0''" and r = 0 and rest = "[]"]
    by (simp add: st pi pf) (simp add: ex_defs)
  have r1: "add_student ex_builtins (store [alice]) ['' '', ''S2'', ''Bob'', ''EE'', ''2'', ''100''] =
     Inr (saved [alice, bob\<lparr>year := JInt 2\<rparr>], [], [IdEmpty, Saved, Added ''Bob''])"
    using t [where i = "'' ''" and rest = "[''S2'', ''Bob'', ''EE'', ''2'', ''100'']"]
    by (simp add: st a100)
  have r2: "add_student ex_builtins (store [alice]) [''S1'', ''S2'', ''Bob'', ''EE'', ''2'', ''100''] =
     Inr (saved [alice, bob\<lparr>year := JInt 2\<rparr>], [], [IdExists ''S1'', Saved, Added ''Bob''])"
    using f1 t [where i = "''S1''" and rest = "[''S2'', ''Bob'', ''EE'', ''2'', ''100'']"]
    by (simp add: st a100)
  have r3: "add_student ex_builtins (store [alice]) [''S2'', ''Bob'', ''EE'', ''0'', ''2'', ''100''] =
     Inr (saved [alice, bob\<lparr>year := JInt 2\<rparr>], [], [YearNotPositive, Saved, Added ''Bob''])"
    using f2 t [where i = "''S2''" and n = "''Bob''" and b = "''EE''" and y = "''0''" and yr = 0
        and rest = "[''2'', ''100'']"]
    by (simp add: st pi a100)
  have r4: "add_student ex_builtins (store [alice]) [''S2'', ''Bob'', ''EE'', ''2'', ''100.5'', ''100''] =
     Inr (saved [alice, bob\<lparr>year := JInt 2\<rparr>], [], [MarksOutOfRange, Saved, Added ''Bob''])"
    using f2 t [where i = "''S2''" and n = "''Bob''" and b = "''EE''" and y = "''2''" and yr = 2
        and k = "''100.5''" and mk = "Finite (201 / 2)" and rest = "[''100'']"]
    by (simp add: st pi pf a100)
  from a100 a0 r1 r2 r3 r4 show ?thesis by simp
qed

subsection \<open>Invariants\<close>

text \<open>
  C10. The record \<^verbatim>\<open>add_student\<close> appends is well-formed. If every record of the store
  is well-formed, then so is every record after \<^verbatim>\<open>add_student\<close>,
  \<^verbatim>\<open>update_student\<close> and \<^verbatim>\<open>delete_student\<close>. \<^verbatim>\<open>_load_data\<close> does not validate:
  it loads \<^const>\<open>mallory\<close>, whose id is empty, whose year is 0 and whose marks are 101.
\<close>

theorem operations_keep_well_formed:
  "(add_student B m inp = Inr (m', inp', out) \<longrightarrow>
      (\<exists>s. students m' = students m @ [s] \<and> well_formed s)) \<and>
   (list_all well_formed (students m) \<longrightarrow>
      (add_student B m inp = Inr (m', inp', out) \<longrightarrow> list_all well_formed (students m')) \<and>
      (update_student B m inp = Inr (m', inp', out) \<longrightarrow> list_all well_formed (students m')) \<and>
      (delete_student B m inp = Inr (m', inp', out) \<longrightarrow> list_all well_formed (students m'))) \<and>
   init (Parses (JArr [to_dict mallory])) True =
     (\<lparr>students = [mallory], data_file = Parses (JArr [to_dict mallory]), writable = True\<rparr>,
      [Loaded]) \<and>
   \<not> id_nonempty (student_id mallory) \<and> \<not> year_positive (year mallory) \<and>
   \<not> marks_in_range (marks mallory) \<and> \<not> list_all well_formed [mallory]"
proof (intro conjI impI)
  assume "add_student B m inp = Inr (m', inp', out)"
  then show "\<exists>s. students m' = students m @ [s] \<and> well_formed s"
    by (rule add_student_well_formed)
next
  assume "list_all well_formed (students m)" and "add_student B m inp = Inr (m', inp', out)"
  then show "list_all well_formed (students m')"
    using add_student_well_formed by fastforce
next
  assume "list_all well_formed (students m)" and "update_student B m inp = Inr (m', inp', out)"
  then show "list_all well_formed (students m')"
    using update_student_well_formed by blast
next
  assume w: "list_all well_formed (students m)" and "delete_student B m inp = Inr (m', inp', out)"
  then obtain l where "students m' = filter (\<lambda>s. student_id s \<noteq> JStr (strip B l)) (students m)"
    using delete_student_students by blast
  with w show "list_all well_formed (students m')"
    by (simp add: list_all_iff)
next
  show "init (Parses (JArr [to_dict mallory])) True =
     (\<lparr>students = [mallory], data_file = Parses (JArr [to_dict mallory]), writable = True\<rparr>,
      [Loaded])"
    by (rule mallory_loaded)
qed (simp_all add: mallory_def well_formed_def)

text \<open>A well-formed store of two records, after each of the three operations.\<close>

theorem operations_keep_well_formed_witness:
  "list_all well_formed (students (store [alice, bob])) \<and>
   add_student ex_builtins (store [alice, bob]) [''S1'', ''S3'', ''Dan'', ''CS'', ''2'', ''0''] =
     Inr (saved [alice, bob, \<lparr>student_id = JStr ''S3'', name = JStr ''Dan'',
            branch = JStr ''CS'', year = JInt 2, marks = JFloat (Finite 0)\<rparr>], [],
          [IdExists ''S1'', Saved, Added ''Dan'']) \<and>
   list_all well_formed [alice, bob, \<lparr>student_id = JStr ''S3'', name = JStr ''Dan'',
            branch = JStr ''CS'', year = JInt 2, marks = JFloat (Finite 0)\<rparr>] \<and>
   update_student ex_builtins (store [alice, bob]) [''S2'', '''', '''', ''-1'', ''3'', ''inf'', ''0''] =
     Inr (saved [alice, bob\<lparr>year := JInt 3, marks := JFloat (Finite 0)\<rparr>], [],
          [YearNotPositive, MarksOutOfRange, Saved, Updated ''S2'']) \<and>
   list_all well_formed [alice, bob\<lparr>year := JInt 3, marks := JFloat (Finite 0)\<rparr>] \<and>
   delete_student ex_builtins (store [alice, bob]) [''S1''] =
     Inr (saved [bob], [], [Saved, Deleted ''S1'']) \<and>
   list_all well_formed [bob]"
proof -
  have w: "list_all well_formed (students (store [alice, bob]))"
    by (simp add: well_formed_def ex_defs)
  have a: "add_student ex_builtins (store [alice, bob])
      [''S1'', ''S3'', ''Dan'', ''CS'', ''2'', ''0''] =
     Inr (saved [alice, bob, \<lparr>student_id = JStr ''S3'', name = JStr ''Dan'',
            branch = JStr ''CS'', year = JInt 2, marks = JFloat (Finite 0)\<rparr>], [],
          [IdExists ''S1'', Saved, Added ''Dan''])"
    by (simp add: add_student_def ex_defs)
  have up: "update_student ex_builtins (store [alice, bob])
      [''S2'', '''', '''', ''-1'', ''3'', ''inf'', ''0''] =
     Inr (saved [alice, bob\<lparr>year := JInt 3, marks := JFloat (Finite 0)\<rparr>], [],
          [YearNotPositive, MarksOutOfRange, Saved, Updated ''S2''])"
    by (simp add: update_student_def ex_defs)
  have d: "delete_student ex_builtins (store [alice, bob]) [''S1''] =
     Inr (saved [bob], [], [Saved, Deleted ''S1''])"
    by (simp add: delete_student_def ex_defs)
  note t = operations_keep_well_formed [where B = ex_builtins and m = "store [alice, bob]"]
  from w a t have "list_all well_formed (students (saved [alice, bob, \<lparr>student_id = JStr ''S3'',
      name = JStr ''Dan'', branch = JStr ''CS'', year = JInt 2, marks = JFloat (Finite 0)\<rparr>]))"
    by blast
  moreover from w up t
  have "list_all well_formed (students (saved [alice, bob\<lparr>year := JInt 3, marks := JFloat (Finite 0)\<rparr>]))"
    by blast
  moreover from w d t have "list_all well_formed (students (saved [bob]))"
    by blast
  ultimately show ?thesis using w a up d
    by (simp add: saved_def)
qed

text \<open>
  C1, as stated, fails at load: a file with two records under the id \<open>S1\<close> loads into
  a store with both of them.
\<close>

theorem load_duplicate_ids_counterexample:
  "init (Parses (JArr [to_dict alice, to_dict carol])) True =
     (\<lparr>students = [alice, carol], data_file = Parses (JArr [to_dict alice, to_dict carol]),
       writable = True\<rparr>, [Loaded]) \<and>
   student_id alice = student_id carol \<and> alice \<noteq> carol \<and> \<not> unique_ids [alice, carol]"
proof -
  have "parse_students (JArr [to_dict alice, to_dict carol]) = Inr [alice, carol]"
    using parse_students_saved [of "[alice, carol]"] by simp
  then have "init (Parses (JArr [to_dict alice, to_dict carol])) True =
     (\<lparr>students = [alice, carol], data_file = Parses (JArr [to_dict alice, to_dict carol]),
       writable = True\<rparr>, [Loaded])"
    by (simp add: init_def load_data_def)
  then show ?thesis
    by (simp add: unique_ids_def alice_def carol_def)
qed

text \<open>
  C1, amended. \<^verbatim>\<open>add_student\<close>, \<^verbatim>\<open>update_student\<close> and \<^verbatim>\<open>delete_student\<close>
  take a store with unique ids to a store with unique ids. \<^verbatim>\<open>_load_data\<close> does not
  check ids: the store of a new manager has unique ids exactly when the records parsed
  from the file have (and always when the file is absent or does not load).
\<close>

theorem operations_keep_unique_ids:
  "(unique_ids (students m) \<longrightarrow>
      (add_student B m inp = Inr (m', inp', out) \<longrightarrow> unique_ids (students m')) \<and>
      (update_student B m inp = Inr (m', inp', out) \<longrightarrow> unique_ids (students m')) \<and>
      (delete_student B m inp = Inr (m', inp', out) \<longrightarrow> unique_ids (students m'))) \<and>
   (unique_ids (students (fst (init f w))) \<longleftrightarrow>
      (\<forall>data sts. f = Parses data \<and> parse_students data = Inr sts \<longrightarrow> unique_ids sts))"
proof (intro conjI impI)
  assume "unique_ids (students m)" and "add_student B m inp = Inr (m', inp', out)"
  then show "unique_ids (students m')"
    by (auto simp: unique_ids_def find_student_None_ids dest!: add_student_result)
next
  assume u: "unique_ids (students m)" and "update_student B m inp = Inr (m', inp', out)"
  then have "map student_id (students m') = map student_id (students m)"
    using update_student_students replace_found_ids by metis
  with u show "unique_ids (students m')"
    by (simp add: unique_ids_def)
next
  assume u: "unique_ids (students m)" and "delete_student B m inp = Inr (m', inp', out)"
  then obtain l where "students m' = filter (\<lambda>s. student_id s \<noteq> JStr (strip B l)) (students m)"
    using delete_student_students by blast
  with u show "unique_ids (students m')"
    by (simp add: unique_ids_def distinct_map_filter)
next
  show "unique_ids (students (fst (init f w))) \<longleftrightarrow>
      (\<forall>data sts. f = Parses data \<and> parse_students data = Inr sts \<longrightarrow> unique_ids sts)"
    by (cases f) (auto simp: init_def load_data_def unique_ids_def split: sum.splits)
qed

text \<open>A store of two records with different ids, after each of the three operations.\<close>

theorem operations_keep_unique_ids_witness:
  "unique_ids (students (store [alice, bob])) \<and>
   add_student ex_builtins (store [alice, bob]) [''S1'', ''S3'', ''Dan'', ''CS'', ''2'', ''0''] =
     Inr (saved [alice, bob, \<lparr>student_id = JStr ''S3'', name = JStr ''Dan'',
            branch = JStr ''CS'', year = JInt 2, marks = JFloat (Finite 0)\<rparr>], [],
          [IdExists ''S1'', Saved, Added ''Dan'']) \<and>
   unique_ids [alice, bob, \<lparr>student_id = JStr ''S3'', name = JStr ''Dan'',
            branch = JStr ''CS'', year = JInt 2, marks = JFloat (Finite 0)\<rparr>] \<and>
   update_student ex_builtins (store [alice, bob]) [''S2'', ''Rob'', '''', '''', ''''] =
     Inr (saved [alice, bob\<lparr>name := JStr ''Rob''\<rparr>], [], [Saved, Updated ''S2'']) \<and>
   unique_ids [alice, bob\<lparr>name := JStr ''Rob''\<rparr>] \<and>
   delete_student ex_builtins (store [alice, bob]) [''S1''] =
     Inr (saved [bob], [], [Saved, Deleted ''S1'']) \<and>
   unique_ids [bob] \<and>
   unique_ids (students (fst (init (Parses (JArr [to_dict alice, to_dict bob])) True)))"
proof -
  have u: "unique_ids (students (store [alice, bob]))"
    by (simp add: unique_ids_def ex_defs)
  have a: "add_student ex_builtins (store [alice, bob])
      [''S1'', ''S3'', ''Dan'', ''CS'', ''2'', ''0''] =
     Inr (saved [alice, bob, \<lparr>student_id = JStr ''S3'', name = JStr ''Dan'',
            branch = JStr ''CS'', year = JInt 2, marks = JFloat (Finite 0)\<rparr>], [],
          [IdExists ''S1'', Saved, Added ''Dan''])"
    by (simp add: add_student_def ex_defs)
  have up: "update_student ex_builtins (store [alice, bob]) [''S2'', ''Rob'', '''', '''', ''''] =
     Inr (saved [alice, bob\<lparr>name := JStr ''Rob''\<rparr>], [], [Saved, Updated ''S2''])"
    by (simp add: update_student_def ex_defs)
  have d: "delete_student ex_builtins (store [alice, bob]) [''S1''] =
     Inr (saved [bob], [], [Saved, Deleted ''S1''])"
    by (simp add: delete_student_def ex_defs)
  have p: "parse_students (JArr [to_dict alice, to_dict bob]) = Inr [alice, bob]"
    using parse_students_saved [of "[alice, bob]"] by simp
  note t = operations_keep_unique_ids [where B = ex_builtins and m = "store [alice, bob]"]
  from u a t have "unique_ids (students (saved [alice, bob, \<lparr>student_id = JStr ''S3'',
      name = JStr ''Dan'', branch = JStr ''CS'', year = JInt 2, marks = JFloat (Finite 0)\<rparr>]))"
    by blast
  moreover from u up t have "unique_ids (students (saved [alice, bob\<lparr>name := JStr ''Rob''\<rparr>]))"
    by blast
  moreover from u d t have "unique_ids (students (saved [bob]))"
    by blast
  moreover have "unique_ids (students (fst (init (Parses (JArr [to_dict alice, to_dict bob])) True)))"
    using u p t [where f = "Parses (JArr [to_dict alice, to_dict bob])" and w = True]
    by (simp add: store_def)
  ultimately show ?thesis using u a up d
    by (simp add: saved_def)
qed

end
